theory Spec2Isabelle
  imports Complex_Main "HOL-Library.Multiset"
begin

section \<open>Python values and exceptions\<close>

text \<open>
  An exception is identified by the name of its class. Every function of the notebooks that
  can raise returns \<open>exn + 'a\<close>, with \<open>Inl\<close> for the exception that propagates.
\<close>

datatype exn = Exn string

text \<open>Request bodies, Lambda events and GeoJSON geometries are JSON values.\<close>

datatype json =
    JNull
  | JBool bool
  | JNum real
  | JStr string
  | JArr "json list"
  | JObj "(string \<times> json) list"

section \<open>The raster stack: a masked array of shape (days, bands, y, x)\<close>

text \<open>
  \<open>scenes.stack(["red", "nir", "cloud_mask"], ...)\<close> returns a numpy masked array whose axis 1
  has the three requested bands, in that order (index 0 is red, 1 is nir, -1 is cloud_mask).
  An entry of the array is its datum and its mask bit. A pixel carries the entries of the
  three bands; an image is the row-major list of the pixels of one acquisition day.

  Arithmetic on the float data is modelled over the reals with an explicit rounding function
  \<open>rnd\<close> applied to the result of every floating-point operation (the identity is exact
  arithmetic). Not-a-number and infinities are not values of the model: an operation that
  would produce one (a division by zero) is written out as an undefined result.
\<close>

record cell =
  data :: real
  masked :: bool

datatype band = Red | Nir | CloudMask

type_synonym pixel = "band \<Rightarrow> cell"
type_synonym image = "pixel list"
type_synonym rounding = "real \<Rightarrow> real"

text \<open>
  \<^verbatim>\<open>cmask = np.repeat((stack[:,-1].data==1)[:, np.newaxis], stack.shape[1], axis=1)\<close>:
  the comparison of the last band's data with 1, repeated along the band axis.
\<close>

definition cmask :: "image list \<Rightarrow> (band \<Rightarrow> bool) list list" where
  "cmask stack = map (map (\<lambda>px. (\<lambda>b. data (px CloudMask) = 1))) stack"

text \<open>\<^verbatim>\<open>stack.mask = (stack.mask) | cmask\<close>\<close>

definition or_mask :: "pixel \<Rightarrow> (band \<Rightarrow> bool) \<Rightarrow> pixel" where
  "or_mask px cm = (\<lambda>b. (px b)\<lparr>masked := masked (px b) \<or> cm b\<rparr>)"

definition set_mask :: "image list \<Rightarrow> (band \<Rightarrow> bool) list list \<Rightarrow> image list" where
  "set_mask stack cm = map2 (map2 or_mask) stack cm"

subsection \<open>Masked arithmetic\<close>

text \<open>
  A masked-array operand entry is \<open>None\<close> when masked and its datum otherwise; the data under
  a mask are never read by the code that follows. Subtraction and addition mask an entry when
  either operand is masked. True division also masks the entries of numpy's safe-division
  domain, \<^verbatim>\<open>abs(a) * tiny >= abs(b)\<close> with \<open>tiny\<close> the smallest positive normal double.
\<close>

definition entry :: "cell \<Rightarrow> real option" where
  "entry c = (if masked c then None else Some (data c))"

definition ma_subtract :: "rounding \<Rightarrow> real option \<Rightarrow> real option \<Rightarrow> real option" where
  "ma_subtract rnd a b =
     (case a of None \<Rightarrow> None
      | Some x \<Rightarrow> (case b of None \<Rightarrow> None | Some y \<Rightarrow> Some (rnd (x - y))))"

definition ma_add :: "rounding \<Rightarrow> real option \<Rightarrow> real option \<Rightarrow> real option" where
  "ma_add rnd a b =
     (case a of None \<Rightarrow> None
      | Some x \<Rightarrow> (case b of None \<Rightarrow> None | Some y \<Rightarrow> Some (rnd (x + y))))"

definition tiny :: real where
  "tiny = 1 / 2 ^ 1022"

definition domain_safe_divide :: "rounding \<Rightarrow> real \<Rightarrow> real \<Rightarrow> bool" where
  "domain_safe_divide rnd a b = (\<bar>b\<bar> \<le> rnd (\<bar>a\<bar> * tiny))"

definition ma_true_divide :: "rounding \<Rightarrow> real option \<Rightarrow> real option \<Rightarrow> real option" where
  "ma_true_divide rnd a b =
     (case a of None \<Rightarrow> None
      | Some x \<Rightarrow>
          (case b of None \<Rightarrow> None
           | Some y \<Rightarrow> if domain_safe_divide rnd x y then None else Some (rnd (x / y))))"

text \<open>\<^verbatim>\<open>ndvi = (stack[:,1] - stack[:,0])/(stack[:,1] + stack[:,0])\<close>, at one pixel.\<close>

definition ndvi_px :: "rounding \<Rightarrow> pixel \<Rightarrow> real option" where
  "ndvi_px rnd px =
     ma_true_divide rnd
       (ma_subtract rnd (entry (px Nir)) (entry (px Red)))
       (ma_add rnd (entry (px Nir)) (entry (px Red)))"

definition ndvi :: "rounding \<Rightarrow> image list \<Rightarrow> real option list list" where
  "ndvi rnd stack = map (map (ndvi_px rnd)) stack"

text \<open>
  \<^verbatim>\<open>np.ma.median(ndvi, axis=[1,2])\<close>: per day, the median of the unmasked entries of the
  image: the masked entries sort to the end, \<open>counts\<close> is the number of unmasked ones, the low
  and the high middle entries are summed and halved (the same entry twice when the count is
  odd). A day with no unmasked entry gives a masked result.
\<close>

definition ma_median :: "rounding \<Rightarrow> real option list \<Rightarrow> real option" where
  "ma_median rnd a =
     (let asorted = sort (List.map_filter id a);
          counts = length asorted;
          h = counts div 2;
          l = (if odd counts then h else h - 1)
      in if counts = 0 then None
         else Some (rnd (rnd (asorted ! l + asorted ! h) / 2)))"

definition ndvi_ts :: "rounding \<Rightarrow> image list \<Rightarrow> real option list" where
  "ndvi_ts rnd stack = map (ma_median rnd) (ndvi rnd stack)"

section \<open>Dates and the resampling grid\<close>

text \<open>
  A date is its day number (days since 1970-01-01); \<open>timestamp\<close> is the Unix time of its
  midnight in whole seconds, for a process whose local time is UTC. The timestamps and their
  differences are integers far below \<open>2 ^ 53\<close>, exact as doubles.
\<close>

type_synonym date = int

definition timestamp :: "date \<Rightarrow> int" where
  "timestamp d = 86400 * d"

text \<open>
  \<^verbatim>\<open>np.arange(start, stop, step)\<close> has \<open>ceil((stop - start) / step)\<close> elements (none when
  that is not positive), the k-th being \<open>start + k * step\<close>.
\<close>

definition arange :: "int \<Rightarrow> int \<Rightarrow> int \<Rightarrow> int list" where
  "arange start stop step =
     map (\<lambda>k. start + int k * step) [0 ..< nat (- ((start - stop) div step))]"

section \<open>The interpolant\<close>

text \<open>
  \<^verbatim>\<open>scipy.interpolate.interp1d(x, y, bounds_error=False, copy=False, fill_value="extrapolate")\<close>,
  of the default kind \<open>linear\<close>. The constructor raises \<open>ValueError\<close> when \<open>x\<close> and \<open>y\<close> differ in
  length or when there are fewer than \<open>minval\<close> samples, and sorts the samples by \<open>x\<close> with a
  stable sort. \<open>minval\<close> is a constant of the library for the linear kind: 2 in older releases
  of scipy and 1 in newer ones, so it is a parameter here.
\<close>

definition interp1d :: "nat \<Rightarrow> int list \<Rightarrow> real list \<Rightarrow> exn + (int \<times> real) list" where
  "interp1d minval x y =
     (if length x \<noteq> length y then Inl (Exn ''ValueError'')
      else if length x < minval then Inl (Exn ''ValueError'')
      else Inr (sort_key fst (zip x y)))"

text \<open>
  Evaluation at a new point, as \<open>interp1d._call_linear\<close> does it: \<open>searchsorted\<close> gives the
  index of the first sample not below the point, clipped into \<open>1 .. len(x) - 1\<close>; the samples at
  that index and the one before give the slope. Python's indexing counts a negative index
  from the end and raises \<open>IndexError\<close> out of range.
\<close>

definition searchsorted :: "int list \<Rightarrow> int \<Rightarrow> nat" where
  "searchsorted xs v = length (takeWhile (\<lambda>x. x < v) xs)"

definition clip :: "int \<Rightarrow> int \<Rightarrow> int \<Rightarrow> int" where
  "clip a a_min a_max = min a_max (max a a_min)"

definition py_get :: "'a list \<Rightarrow> int \<Rightarrow> exn + 'a" where
  "py_get xs i =
     (let n = int (length xs); j = (if i < 0 then i + n else i)
      in if 0 \<le> j \<and> j < n then Inr (xs ! nat j) else Inl (Exn ''IndexError''))"

text \<open>
  \<^verbatim>\<open>slope = (y_hi - y_lo) / (x_hi - x_lo); y_new = slope*(x_new - x_lo) + y_lo\<close>. When the two
  samples have the same \<open>x\<close> the slope is a division by zero and the value is undefined
  (\<open>None\<close>: not-a-number or an infinity in the floating-point code).
\<close>

definition linear_eval :: "rounding \<Rightarrow> int \<times> real \<Rightarrow> int \<times> real \<Rightarrow> int \<Rightarrow> real option" where
  "linear_eval rnd lo hi x_new =
     (case lo of (x_lo, y_lo) \<Rightarrow> case hi of (x_hi, y_hi) \<Rightarrow>
        if x_hi - x_lo = 0 then None
        else let slope = rnd (rnd (y_hi - y_lo) / of_int (x_hi - x_lo))
             in Some (rnd (rnd (slope * of_int (x_new - x_lo)) + y_lo)))"

definition call_linear :: "rounding \<Rightarrow> (int \<times> real) list \<Rightarrow> int \<Rightarrow> exn + real option" where
  "call_linear rnd xy x_new =
     (let x_new_indices = clip (int (searchsorted (map fst xy) x_new)) 1 (int (length xy) - 1)
      in case py_get xy (x_new_indices - 1) of Inl e \<Rightarrow> Inl e
         | Inr lo \<Rightarrow>
             (case py_get xy x_new_indices of Inl e \<Rightarrow> Inl e
              | Inr hi \<Rightarrow> Inr (linear_eval rnd lo hi x_new)))"

fun f_interp :: "rounding \<Rightarrow> (int \<times> real) list \<Rightarrow> int list \<Rightarrow> exn + real option list" where
  "f_interp rnd xy [] = Inr []"
| "f_interp rnd xy (x_new # rest) =
     (case call_linear rnd xy x_new of Inl e \<Rightarrow> Inl e
      | Inr y_new \<Rightarrow>
          (case f_interp rnd xy rest of Inl e \<Rightarrow> Inl e | Inr ys \<Rightarrow> Inr (y_new # ys)))"

section \<open>The services and libraries the code calls\<close>

text \<open>
  The classifier artefact is opaque: all the code does with it is to store it, load it and
  call its \<open>predict\<close> on one feature vector, which returns a label or raises.
\<close>

type_synonym features = "real option list"
type_synonym classifier = "features \<Rightarrow> exn + int"

text \<open>
  The environment of a call: the floating-point rounding, scipy's \<open>minval\<close>, the imagery
  service (\<open>dl.scenes.search\<close> followed by \<open>scenes.stack\<close> flattened by acquisition day, and the
  same grouping's keys as dates: one image per day, or the exception of the remote call), the
  S3 buckets and the platform's object storage (an object by its key, when there is one).
\<close>

record env =
  float_rnd :: rounding
  scipy_minval :: nat
  imagery :: "json \<Rightarrow> date \<Rightarrow> date \<Rightarrow> exn + (date \<times> image) list"
  s3 :: "string \<Rightarrow> string \<rightharpoonup> classifier"
  storage :: "string \<rightharpoonup> classifier"

section \<open>\<open>get_ndvi_tseries\<close>\<close>

text \<open>The default date range: 2019-04-01 and 2019-10-01 as day numbers.\<close>

definition default_start_date :: date where
  "default_start_date = 17987"

definition default_end_date :: date where
  "default_end_date = 18170"

text \<open>
  \<^verbatim>\<open>tseries_masked = ndvi_ts.data[~ndvi_ts.mask]\<close> and
  \<^verbatim>\<open>dates_masked = np.array(dates_ts)[~ndvi_ts.mask]\<close>: the selection of the unmasked days.
\<close>

definition tseries_masked :: "real option list \<Rightarrow> real list" where
  "tseries_masked series = List.map_filter id series"

definition dates_masked :: "int list \<Rightarrow> real option list \<Rightarrow> int list" where
  "dates_masked dates_ts series = map fst (filter (\<lambda>(t, v). v \<noteq> None) (zip dates_ts series))"

definition new_dates :: "date \<Rightarrow> date \<Rightarrow> date list" where
  "new_dates start_date end_date = arange start_date end_date 6"

text \<open>
  The steps of \<open>get_ndvi_tseries\<close> after the imagery has been pulled, named after the
  variables of the source: \<open>series\<close> is \<open>ndvi_ts\<close> of the stack with the clouds masked, and
  \<open>fit\<close> is the construction of \<open>f_interp\<close> from the unmasked days.
\<close>

definition series :: "env \<Rightarrow> (date \<times> image) list \<Rightarrow> real option list" where
  "series E days =
     (let stack = map snd days;
          stack = set_mask stack (cmask stack)
      in ndvi_ts (float_rnd E) stack)"

definition fit :: "env \<Rightarrow> (date \<times> image) list \<Rightarrow> exn + (int \<times> real) list" where
  "fit E days =
     (let dates = map fst days;
          dates_ts = map timestamp dates
      in interp1d (scipy_minval E)
           (dates_masked dates_ts (series E days)) (tseries_masked (series E days)))"

definition get_ndvi_tseries ::
    "env \<Rightarrow> json \<Rightarrow> date \<Rightarrow> date \<Rightarrow> exn + (real option list \<times> date list)" where
  "get_ndvi_tseries E geom start_date end_date =
     (case imagery E geom start_date end_date of Inl e \<Rightarrow> Inl e
      | Inr days \<Rightarrow>
          (let new_dates_ts = map timestamp (new_dates start_date end_date)
           in case fit E days of Inl e \<Rightarrow> Inl e
              | Inr xy \<Rightarrow>
                  (case f_interp (float_rnd E) xy new_dates_ts of Inl e \<Rightarrow> Inl e
                   | Inr ys \<Rightarrow> Inr (tl ys, tl (new_dates start_date end_date)))))"

section \<open>The local file system and the remote fetches\<close>

text \<open>
  The state a call can change: the directories and the files of the local file system (a file
  by its path, holding a serialized classifier), and the log of the downloads requested from a
  remote store, in order. Paths are the strings the code builds; they are not normalised.
\<close>

datatype fetch =
    S3Download string string string
  | StorageGet string string

record world =
  dirs :: "string set"
  files :: "string \<rightharpoonup> classifier"
  fetches :: "fetch list"

definition osp_exists :: "world \<Rightarrow> string \<Rightarrow> bool" where
  "osp_exists w path = (path \<in> dirs w \<or> files w path \<noteq> None)"

text \<open>
  \<^verbatim>\<open>os.path.join(a, b)\<close> on POSIX: an absolute \<open>b\<close> replaces \<open>a\<close>; otherwise the two are
  joined by one separator.
\<close>

definition osp_join :: "string \<Rightarrow> string \<Rightarrow> string" where
  "osp_join a b =
     (if b \<noteq> [] \<and> hd b = CHR ''/'' then b
      else if a = [] \<or> last a = CHR ''/'' then a @ b
      else a @ ''/'' @ b)"

text \<open>
  \<^verbatim>\<open>os.makedirs(name)\<close> creates the leaf directory and every intermediate one: the prefixes
  of the path that end before a separator, and the path itself.
\<close>

definition dir_prefixes :: "string \<Rightarrow> string list" where
  "dir_prefixes name =
     map (\<lambda>i. take i name) (filter (\<lambda>i. name ! i = CHR ''/'') [1 ..< length name]) @ [name]"

definition os_makedirs :: "string \<Rightarrow> world \<Rightarrow> world" where
  "os_makedirs name w = w\<lparr>dirs := dirs w \<union> set (dir_prefixes name)\<rparr>"

text \<open>
  \<^verbatim>\<open>s3.download_file(bucket, key, filename)\<close> and \<^verbatim>\<open>dl.storage.get_file(key, filename)\<close>:
  the request is logged; an object that exists is written to the local path, a missing one
  raises. \<^verbatim>\<open>joblib.load(path)\<close> reads the file back.
\<close>

definition s3_download_file ::
    "env \<Rightarrow> string \<Rightarrow> string \<Rightarrow> string \<Rightarrow> world \<Rightarrow> (exn + unit) \<times> world" where
  "s3_download_file E bucket key filename w =
     (let w = w\<lparr>fetches := fetches w @ [S3Download bucket key filename]\<rparr>
      in case s3 E bucket key of
           None \<Rightarrow> (Inl (Exn ''ClientError''), w)
         | Some obj \<Rightarrow> (Inr (), w\<lparr>files := (files w)(filename \<mapsto> obj)\<rparr>))"


definition load :: "world \<Rightarrow> string \<Rightarrow> exn + classifier" where
  "load w path =
     (case files w path of
        Some clf \<Rightarrow> Inr clf
      | None \<Rightarrow>
          if path \<in> dirs w then Inl (Exn ''IsADirectoryError'')
          else Inl (Exn ''FileNotFoundError''))"

section \<open>The three deployment shapes\<close>

text \<open>The result \<^verbatim>\<open>{"class": ..., "fid": fid}\<close>.\<close>

record response =
  resp_class :: int
  resp_fid :: json

text \<open>
  \<open>get_field_class(geom, fid, s3_bucket, model_name)\<close> of \<open>model.py\<close>, called by the Lambda
  handler and by the Batch command. An exception leaves the effects made before it in place.
\<close>

definition get_field_class ::
    "env \<Rightarrow> json \<Rightarrow> json \<Rightarrow> string \<Rightarrow> string \<Rightarrow> world \<Rightarrow> (exn + response) \<times> world" where
  "get_field_class E geom fid s3_bucket model_name w =
     (let w = (if \<not> osp_exists w ''/tmp/models'' then os_makedirs ''/tmp/models'' w else w);
          temp_file_path = osp_join ''/tmp/models'' model_name;
          (pulled, w) =
             (if \<not> osp_exists w temp_file_path
              then s3_download_file E s3_bucket model_name temp_file_path w
              else (Inr (), w))
      in case pulled of Inl e \<Rightarrow> (Inl e, w)
         | Inr u \<Rightarrow>
             (case load w temp_file_path of Inl e \<Rightarrow> (Inl e, w)
              | Inr clf \<Rightarrow>
                  (case get_ndvi_tseries E geom default_start_date default_end_date of
                     Inl e \<Rightarrow> (Inl e, w)
                   | Inr (ndvi_series, ndvi_dates) \<Rightarrow>
                       (case clf ndvi_series of Inl e \<Rightarrow> (Inl e, w)
                        | Inr c \<Rightarrow> (Inr \<lparr>resp_class = c, resp_fid = fid\<rparr>, w)))))"

text \<open>
  The state after the first step of \<open>get_field_class\<close>, the creation of the cache directory
  when it is missing.
\<close>

definition cache_dir_made :: "world \<Rightarrow> world" where
  "cache_dir_made w =
     (if \<not> osp_exists w ''/tmp/models'' then os_makedirs ''/tmp/models'' w else w)"






section \<open>The completion collector\<close>




section \<open>Comparing two stacks that differ in their cloud flags\<close>

text \<open>
  \<open>more_cloud days days'\<close>: the same acquisition days with the same reflectance entries, the
  second flagging as cloud every pixel the first flags (and possibly more). \<open>mask_count\<close> is the
  number of masked entries of an aggregated series.
\<close>

definition more_cloud_px :: "pixel \<Rightarrow> pixel \<Rightarrow> bool" where
  "more_cloud_px p q =
     (p Red = q Red \<and> p Nir = q Nir \<and> (data (p CloudMask) = 1 \<longrightarrow> data (q CloudMask) = 1))"

definition more_cloud :: "(date \<times> image) list \<Rightarrow> (date \<times> image) list \<Rightarrow> bool" where
  "more_cloud days days' =
     list_all2 (\<lambda>a b. fst a = fst b \<and> list_all2 more_cloud_px (snd a) (snd b)) days days'"

definition mask_count :: "real option list \<Rightarrow> nat" where
  "mask_count a = length (filter (\<lambda>v. v = None) a)"

section \<open>Concrete inputs\<close>

text \<open>
  One-pixel images of unmasked entries, an imagery service that returns the given days for
  every request, exact arithmetic, and \<open>minval = 2\<close>.
\<close>

definition mk_pixel :: "real \<Rightarrow> real \<Rightarrow> real \<Rightarrow> pixel" where
  "mk_pixel r n c =
     (\<lambda>b. case b of Red \<Rightarrow> \<lparr>data = r, masked = False\<rparr>
               | Nir \<Rightarrow> \<lparr>data = n, masked = False\<rparr>
               | CloudMask \<Rightarrow> \<lparr>data = c, masked = False\<rparr>)"

definition clear_days :: "(date \<times> image) list" where
  "clear_days = [(17990, [mk_pixel (1/10) (3/10) 0]), (18000, [mk_pixel (1/10) (9/10) 0])]"

definition partly_cloudy_days :: "(date \<times> image) list" where
  "partly_cloudy_days = [(17990, [mk_pixel (1/10) (3/10) 0]), (18000, [mk_pixel (1/10) (9/10) 1])]"

definition cloudy_days :: "(date \<times> image) list" where
  "cloudy_days = [(17990, [mk_pixel (1/10) (3/10) 1])]"

definition field_geom :: json where
  "field_geom = JObj [(''type'', JStr ''Polygon''), (''coordinates'', JArr [])]"

definition const_classifier :: classifier where
  "const_classifier = (\<lambda>x. Inr 3)"

definition demo_env :: "(date \<times> image) list \<Rightarrow> env" where
  "demo_env days =
     \<lparr>float_rnd = (\<lambda>x. x), scipy_minval = 2, imagery = (\<lambda>geom s e. Inr days),
      s3 = (\<lambda>bucket key. if bucket = ''dl-aws-onboarding'' then Some const_classifier else None),
      storage = (\<lambda>key. if key = ''classifier.joblib'' then Some const_classifier else None)\<rparr>"

text \<open>
  A rounding that is not the identity, for the examples: rounding toward zero to a multiple of
  \<open>2 ^ -10\<close>.
\<close>

definition chop :: rounding where
  "chop x = (let y = x * 2 ^ 10 in real_of_int (if 0 \<le> y then \<lfloor>y\<rfloor> else \<lceil>y\<rceil>) / 2 ^ 10)"

definition fresh_world :: world where
  "fresh_world = \<lparr>dirs = {''/tmp''}, files = Map.empty, fetches = []\<rparr>"

text \<open>
  A process that has already pulled \<open>classifier.joblib\<close> from the bucket, a Flask process
  with the model file in place, two request bodies, and twenty tasks of which the tenth and
  the twentieth failed.
\<close>

definition cached_world :: world where
  "cached_world =
     \<lparr>dirs = {''/tmp'', ''/tmp/models''},
      files = [''/tmp/models/classifier.joblib'' \<mapsto> const_classifier],
      fetches = [S3Download ''dl-aws-onboarding'' ''classifier.joblib''
                   ''/tmp/models/classifier.joblib'']\<rparr>"






section \<open>The normalized index\<close>

lemma rnd_zero:
  fixes rnd :: rounding
  assumes "\<forall>x. rnd (- x) = - rnd x"
  shows "rnd 0 = 0"
proof -
  from assms have "rnd (- 0) = - rnd 0" by blast
  then show ?thesis by simp
qed

text \<open>
  Claim C4. For every pixel where both input bands are positive, the normalized index
  \<open>(nir - red) / (nir + red)\<close> that the code computes lies in \<open>[-1, 1]\<close>. This holds for exact
  arithmetic and for every rounding of the floating-point operations that is monotone,
  symmetric about zero and exact at 1, as round-to-nearest is.
\<close>

theorem ndvi_bounded:
  assumes mono: "mono rnd" and odd: "\<forall>x. rnd (- x) = - rnd x" and one: "rnd 1 = 1"
    and red: "0 < data (px Red)" and nir: "0 < data (px Nir)"
    and res: "ndvi_px rnd px = Some v"
  shows "- 1 \<le> v \<and> v \<le> 1"
proof -
  define a where "a = rnd (data (px Nir) - data (px Red))"
  define b where "b = rnd (data (px Nir) + data (px Red))"
  have z: "rnd 0 = 0" using odd by (rule rnd_zero)
  from res have nd: "\<not> domain_safe_divide rnd a b" and v: "v = rnd (a / b)"
    by (auto simp: ndvi_px_def ma_true_divide_def ma_subtract_def ma_add_def entry_def a_def b_def
        split: if_splits option.splits)
  have "rnd 0 \<le> rnd (\<bar>a\<bar> * tiny)"
    using mono by (rule monoD) (simp add: tiny_def)
  with nd z have bne: "b \<noteq> 0" by (auto simp: domain_safe_divide_def)
  have "rnd 0 \<le> b" unfolding b_def using mono by (rule monoD) (use red nir in simp)
  with bne z have bpos: "0 < b" by simp
  have ab: "a \<le> b" unfolding a_def b_def using mono by (rule monoD) (use red in simp)
  have "rnd (- (data (px Nir) + data (px Red))) \<le> a"
    unfolding a_def using mono by (rule monoD) (use nir in simp)
  moreover have "rnd (- (data (px Nir) + data (px Red))) = - b"
    unfolding b_def using odd by blast
  ultimately have ba: "- b \<le> a" by simp
  have q1: "a / b \<le> 1" using ab bpos by simp
  have q2: "- 1 \<le> a / b" using ba bpos by (simp add: pos_le_divide_eq)
  have "rnd (a / b) \<le> rnd 1" using mono q1 by (rule monoD)
  moreover have "rnd (- 1) \<le> rnd (a / b)" using mono q2 by (rule monoD)
  ultimately show ?thesis using one odd v by simp
qed

lemma chop_mono: "mono chop"
proof (rule monoI)
  fix x y :: real
  assume xy: "x \<le> y"
  let ?t = "\<lambda>z::real. if 0 \<le> z then \<lfloor>z\<rfloor> else \<lceil>z\<rceil>"
  have t: "?t a \<le> ?t b" if "a \<le> b" for a b :: real
  proof (cases "0 \<le> a")
    case True
    with that show ?thesis by (simp add: floor_mono)
  next
    case False
    then have "\<lceil>a\<rceil> \<le> 0" by (simp add: ceiling_le_iff)
    show ?thesis
    proof (cases "0 \<le> b")
      case True
      then have "0 \<le> \<lfloor>b\<rfloor>" by simp
      with \<open>\<lceil>a\<rceil> \<le> 0\<close> have "\<lceil>a\<rceil> \<le> \<lfloor>b\<rfloor>" by (rule order_trans)
      with False True show ?thesis by simp
    next
      case b: False
      with False that show ?thesis by (simp add: ceiling_mono)
    qed
  qed
  from xy have "x * 2 ^ 10 \<le> y * 2 ^ 10" by simp
  then have "?t (x * 2 ^ 10) \<le> ?t (y * 2 ^ 10)" by (rule t)
  then show "chop x \<le> chop y"
    unfolding chop_def Let_def by (simp add: divide_right_mono)
qed

lemma chop_odd: "chop (- x) = - chop x"
  by (simp add: chop_def Let_def ceiling_minus floor_minus)

lemma chop_one: "chop 1 = 1"
  by (simp add: chop_def)

theorem ndvi_bounded_witness:
  "ndvi_px (\<lambda>x. x) (mk_pixel (1/10) (3/10) 0) = Some (1/2)
   \<and> - 1 \<le> (1/2 :: real) \<and> (1/2 :: real) \<le> 1
   \<and> ndvi_px chop (mk_pixel (1/10) (3/10) 0) = Some (255/512)
   \<and> - 1 \<le> (255/512 :: real) \<and> (255/512 :: real) \<le> 1"
proof -
  have r: "ndvi_px (\<lambda>x. x) (mk_pixel (1/10) (3/10) 0) = Some (1/2)"
    by (simp add: ndvi_px_def mk_pixel_def ma_true_divide_def ma_subtract_def ma_add_def
        entry_def domain_safe_divide_def tiny_def)
  have m: "mono (\<lambda>x::real. x)" by (simp add: mono_def)
  have 1: "- 1 \<le> (1/2 :: real) \<and> (1/2 :: real) \<le> 1"
    by (rule ndvi_bounded [OF m _ _ _ _ r]) (simp_all add: mk_pixel_def)
  have r': "ndvi_px chop (mk_pixel (1/10) (3/10) 0) = Some (255/512)"
    by (simp add: ndvi_px_def mk_pixel_def ma_true_divide_def ma_subtract_def ma_add_def
        entry_def domain_safe_divide_def tiny_def chop_def Let_def)
  have 2: "- 1 \<le> (255/512 :: real) \<and> (255/512 :: real) \<le> 1"
    by (rule ndvi_bounded [OF chop_mono _ chop_one _ _ r']) (simp_all add: mk_pixel_def chop_odd)
  from r 1 r' 2 show ?thesis by blast
qed

section \<open>The cloud mask\<close>

lemma set_mask_cmask:
  "set_mask stack (cmask stack) =
     map (map (\<lambda>px. or_mask px (\<lambda>b. data (px CloudMask) = 1))) stack"
proof -
  have inner: "map2 or_mask img (map (\<lambda>px. (\<lambda>b. data (px CloudMask) = 1)) img) =
      map (\<lambda>px. or_mask px (\<lambda>b. data (px CloudMask) = 1)) img" for img :: image
    by (induction img) simp_all
  show ?thesis
    unfolding set_mask_def cmask_def
    by (induction stack) (simp_all add: inner)
qed

text \<open>
  Claim C5. \<open>get_ndvi_tseries\<close> sets the mask of the stack to the pointwise OR of the mask it
  had with the predicate "the datum of the cloud-mask band is 1", the predicate of a pixel
  being applied to every band of that day's image. The data and the shape are unchanged.
\<close>

theorem cloud_mask_or:
  assumes "d < length stack" and "p < length (stack ! d)"
  shows "length (set_mask stack (cmask stack)) = length stack
       \<and> length (set_mask stack (cmask stack) ! d) = length (stack ! d)
       \<and> masked ((set_mask stack (cmask stack) ! d ! p) b)
           = (masked ((stack ! d ! p) b) \<or> data ((stack ! d ! p) CloudMask) = 1)
       \<and> data ((set_mask stack (cmask stack) ! d ! p) b) = data ((stack ! d ! p) b)"
  using assms by (simp add: set_mask_cmask or_mask_def)

theorem cloud_mask_or_witness:
  "masked ((set_mask (map snd partly_cloudy_days) (cmask (map snd partly_cloudy_days)) ! 1 ! 0) Red)
   \<and> \<not> masked ((set_mask (map snd partly_cloudy_days) (cmask (map snd partly_cloudy_days)) ! 0 ! 0) Red)"
  using cloud_mask_or [of 1 "map snd partly_cloudy_days" 0 Red]
    cloud_mask_or [of 0 "map snd partly_cloudy_days" 0 Red]
  by (simp add: partly_cloudy_days_def mk_pixel_def)

section \<open>The aggregated series\<close>

lemma series_map:
  "series E days =
     map (\<lambda>img. ma_median (float_rnd E)
            (map (\<lambda>px. ndvi_px (float_rnd E) (or_mask px (\<lambda>b. data (px CloudMask) = 1))) img))
       (map snd days)"
  by (simp add: series_def Let_def ndvi_ts_def ndvi_def set_mask_cmask comp_def)

lemma length_series: "length (series E days) = length days"
  by (simp add: series_map)

lemma series_empty: "series E [] = []"
  by (simp add: series_map)

lemma ndvi_px_cloud:
  "ndvi_px rnd (or_mask px (\<lambda>b. data (px CloudMask) = 1)) =
     (if data (px CloudMask) = 1 then None else ndvi_px rnd px)"
  by (simp add: ndvi_px_def or_mask_def entry_def ma_subtract_def ma_add_def ma_true_divide_def)

lemma ndvi_px_cong: "p Red = q Red \<Longrightarrow> p Nir = q Nir \<Longrightarrow> ndvi_px rnd p = ndvi_px rnd q"
  by (simp add: ndvi_px_def)

lemma ma_median_None: "ma_median rnd a = None \<longleftrightarrow> list_all (\<lambda>v. v = None) a"
proof -
  have "List.map_filter id a = [] \<longleftrightarrow> list_all (\<lambda>v. v = None) a"
    by (induction a) (auto simp: List.map_filter_simps split: option.splits)
  moreover have "sort xs = [] \<longleftrightarrow> xs = []" for xs :: "real list"
    by (metis length_sort length_0_conv)
  ultimately show ?thesis by (simp add: ma_median_def Let_def)
qed

lemma ndvi_px_demo:
  "ndvi_px (\<lambda>x. x) (mk_pixel (1/10) (3/10) 0) = Some (1/2)"
  "ndvi_px (\<lambda>x. x) (mk_pixel (1/10) (9/10) 0) = Some (4/5)"
  by (simp_all add: ndvi_px_def mk_pixel_def ma_true_divide_def ma_subtract_def ma_add_def
      entry_def domain_safe_divide_def tiny_def)

lemma ma_median_single: "ma_median (\<lambda>x. x) [Some v] = Some v" "ma_median rnd [None] = None"
  by (simp_all add: ma_median_def List.map_filter_simps)

lemma mk_pixel_cloud: "data (mk_pixel r n c CloudMask) = c"
  by (simp add: mk_pixel_def)

lemma float_rnd_demo: "float_rnd (demo_env days) = (\<lambda>x. x)"
  by (simp add: demo_env_def)

lemma series_clear: "series (demo_env days) clear_days = [Some (1/2), Some (4/5)]"
  by (simp add: series_map float_rnd_demo clear_days_def ndvi_px_cloud mk_pixel_cloud
      ndvi_px_demo ma_median_single)

lemma series_partly_cloudy: "series (demo_env days) partly_cloudy_days = [Some (1/2), None]"
  by (simp add: series_map float_rnd_demo partly_cloudy_days_def ndvi_px_cloud mk_pixel_cloud
      ndvi_px_demo ma_median_single)

lemma series_cloudy: "series (demo_env days) cloudy_days = [None]"
  by (simp add: series_map float_rnd_demo cloudy_days_def ndvi_px_cloud mk_pixel_cloud
      ma_median_single)

section \<open>Masking is monotone\<close>

lemma more_cloud_px_None:
  assumes "more_cloud_px p q"
    and "ndvi_px rnd (or_mask p (\<lambda>b. data (p CloudMask) = 1)) = None"
  shows "ndvi_px rnd (or_mask q (\<lambda>b. data (q CloudMask) = 1)) = None"
  using assms ndvi_px_cong [of p q rnd]
  by (auto simp: ndvi_px_cloud more_cloud_px_def split: if_splits)

lemma more_cloud_day_None:
  assumes "list_all2 more_cloud_px img img'"
    and "ma_median rnd (map (\<lambda>px. ndvi_px rnd (or_mask px (\<lambda>b. data (px CloudMask) = 1))) img) = None"
  shows "ma_median rnd (map (\<lambda>px. ndvi_px rnd (or_mask px (\<lambda>b. data (px CloudMask) = 1))) img') = None"
  using assms unfolding ma_median_None
  by (induction img img' rule: list_all2_induct) (auto dest: more_cloud_px_None)

text \<open>
  Claim C6. Masking is monotone: of two stacks that differ only in that the second flags a
  superset of the pixels as cloud, the per-day aggregated index series of the second has at
  least as many masked entries as that of the first.
\<close>

theorem masking_monotone:
  assumes "more_cloud days days'"
  shows "mask_count (series E days) \<le> mask_count (series E days')"
  using assms unfolding more_cloud_def series_map mask_count_def
proof (induction days days' rule: list_all2_induct)
  case Nil
  then show ?case by simp
next
  case (Cons a days b days')
  with more_cloud_day_None [of "snd a" "snd b" "float_rnd E"] show ?case by auto
qed

theorem masking_monotone_witness:
  "more_cloud clear_days partly_cloudy_days
   \<and> mask_count (series (demo_env clear_days) clear_days) = 0
   \<and> mask_count (series (demo_env clear_days) partly_cloudy_days) = 1
   \<and> mask_count (series (demo_env clear_days) clear_days)
       \<le> mask_count (series (demo_env clear_days) partly_cloudy_days)"
proof -
  have m: "more_cloud clear_days partly_cloudy_days"
    by (simp add: more_cloud_def more_cloud_px_def clear_days_def partly_cloudy_days_def
        mk_pixel_def)
  show ?thesis
    using m masking_monotone [OF m, of "demo_env clear_days"]
    by (simp add: series_clear series_partly_cloudy mask_count_def)
qed

section \<open>The unmasked samples and the interpolant\<close>

lemma length_masked_eq:
  "length ts = length vs \<Longrightarrow> length (dates_masked ts vs) = length (tseries_masked vs)"
  unfolding dates_masked_def tseries_masked_def
  by (induction ts vs rule: list_induct2) (auto split: option.splits)

lemma dates_masked_subset: "set (dates_masked ts vs) \<subseteq> set ts"
  unfolding dates_masked_def by (auto dest: set_zip_leftD)

lemma dates_masked_Cons:
  "dates_masked (t # ts) (v # vs) =
     (if v = None then dates_masked ts vs else t # dates_masked ts vs)"
  by (simp add: dates_masked_def)

lemma dates_masked_Nil: "dates_masked ts [] = []" "dates_masked [] vs = []"
  by (simp_all add: dates_masked_def)

lemma dates_masked_distinct: "distinct ts \<Longrightarrow> distinct (dates_masked ts vs)"
proof (induction ts arbitrary: vs)
  case Nil
  then show ?case by (simp add: dates_masked_def)
next
  case (Cons t ts)
  show ?case
  proof (cases vs)
    case Nil
    then show ?thesis by (simp add: dates_masked_def)
  next
    case (Cons v vs')
    with Cons.prems Cons.IH [of vs'] dates_masked_subset [of ts vs'] show ?thesis
      by (auto simp: dates_masked_Cons)
  qed
qed

lemma tseries_masked_all_None:
  "list_all (\<lambda>v. v = None) vs \<Longrightarrow> tseries_masked vs = []"
  by (induction vs) (simp_all add: tseries_masked_def List.map_filter_simps)

lemma interp1d_Inr:
  assumes "interp1d m x y = Inr xy"
  shows "length xy = length x \<and> m \<le> length x \<and> mset (map fst xy) = mset x"
proof -
  from assms have len: "length x = length y" and m: "m \<le> length x"
    and xy: "xy = sort_key fst (zip x y)"
    by (auto simp: interp1d_def split: if_splits)
  have "mset (map fst xy) = mset (map fst (zip x y))"
    unfolding xy by (metis mset_map mset_sort)
  with len m xy show ?thesis by simp
qed

lemma interp1d_raises:
  "length x = length y \<Longrightarrow> length x < m \<Longrightarrow> interp1d m x y = Inl (Exn ''ValueError'')"
  by (simp add: interp1d_def)

lemma interp1d_returns:
  "length x = length y \<Longrightarrow> m \<le> length x \<Longrightarrow> \<exists>xy. interp1d m x y = Inr xy"
  by (simp add: interp1d_def)

lemma py_get_in_range:
  "0 \<le> i \<Longrightarrow> i < int (length xs) \<Longrightarrow> py_get xs i = Inr (xs ! nat i)"
  by (simp add: py_get_def Let_def)

text \<open>
  With at least two samples of distinct abscissae the two neighbours of every point differ in
  \<open>x\<close>, so the value is defined; with any sample at all the evaluation does not raise.
\<close>

lemma call_linear_defined:
  assumes n: "2 \<le> length xy" and d: "distinct (map fst xy)"
  shows "\<exists>v. call_linear rnd xy x = Inr (Some v)"
proof -
  define i where "i = clip (int (searchsorted (map fst xy) x)) 1 (int (length xy) - 1)"
  have i1: "1 \<le> i" and i2: "i < int (length xy)"
    using n by (auto simp: i_def clip_def)
  have lo: "py_get xy (i - 1) = Inr (xy ! nat (i - 1))"
    using i1 i2 by (intro py_get_in_range) auto
  have hi: "py_get xy i = Inr (xy ! nat i)"
    using i1 i2 by (intro py_get_in_range) auto
  have "nat (i - 1) \<noteq> nat i" "nat (i - 1) < length xy" "nat i < length xy"
    using i1 i2 by auto
  with d have "map fst xy ! nat (i - 1) \<noteq> map fst xy ! nat i"
    by (simp add: nth_eq_iff_index_eq del: nth_map)
  then have ne: "fst (xy ! nat i) - fst (xy ! nat (i - 1)) \<noteq> 0"
    using \<open>nat (i - 1) < length xy\<close> \<open>nat i < length xy\<close> by simp
  obtain x_lo y_lo x_hi y_hi where p: "xy ! nat (i - 1) = (x_lo, y_lo)" "xy ! nat i = (x_hi, y_hi)"
    by (metis surj_pair)
  show ?thesis
    using lo hi ne p
    by (simp add: call_linear_def i_def [symmetric] linear_eval_def Let_def)
qed

lemma call_linear_no_raise:
  assumes "xy \<noteq> []"
  shows "\<exists>v. call_linear rnd xy x = Inr v"
proof -
  define i where "i = clip (int (searchsorted (map fst xy) x)) 1 (int (length xy) - 1)"
  have "py_get xy (i - 1) \<noteq> Inl (Exn ''IndexError'') \<and> py_get xy i \<noteq> Inl (Exn ''IndexError'')"
    using assms by (cases xy) (auto simp: i_def clip_def py_get_def Let_def min_def max_def)
  then obtain lo hi where "py_get xy (i - 1) = Inr lo" "py_get xy i = Inr hi"
    by (auto simp: py_get_def Let_def split: if_splits)
  then show ?thesis
    by (simp add: call_linear_def i_def [symmetric])
qed

lemma f_interp_Inr_iff:
  "f_interp rnd xy xs = Inr ys \<longleftrightarrow> list_all2 (\<lambda>x y. call_linear rnd xy x = Inr y) xs ys"
proof (induction xs arbitrary: ys)
  case Nil
  then show ?case by auto
next
  case (Cons x xs)
  show ?case
    by (cases ys) (auto simp: Cons.IH [symmetric] split: sum.splits)
qed

lemma f_interp_returns:
  assumes "xy \<noteq> []"
  shows "\<exists>ys. f_interp rnd xy xs = Inr ys"
proof (induction xs)
  case Nil
  then show ?case by simp
next
  case (Cons x xs)
  then obtain ys where "f_interp rnd xy xs = Inr ys" by blast
  moreover obtain v where "call_linear rnd xy x = Inr v"
    using call_linear_no_raise [OF assms] by blast
  ultimately show ?case by simp
qed

section \<open>The resampling grid\<close>

lemma length_arange: "length (arange start stop step) = nat (- ((start - stop) div step))"
  by (simp add: arange_def)

lemma tl_arange:
  "tl (arange start stop step) =
     map (\<lambda>k. start + (int k + 1) * step) [0 ..< nat (- ((start - stop) div step)) - 1]"
proof -
  define n where "n = nat (- ((start - stop) div step))"
  have "tl (map (\<lambda>k. start + int k * step) [0 ..< n]) =
      map (\<lambda>k. start + int k * step) (tl [0 ..< n])"
    by (rule map_tl [symmetric])
  also have "tl [0 ..< n] = map Suc [0 ..< n - 1]"
    by (cases n) (simp_all add: upt_conv_Cons map_Suc_upt del: upt_Suc)
  also have "map (\<lambda>k. start + int k * step) (map Suc [0 ..< n - 1]) =
      map (\<lambda>k. start + (int k + 1) * step) [0 ..< n - 1]"
    by (simp add: comp_def add.commute)
  finally show ?thesis
    unfolding arange_def n_def [symmetric] .
qed

lemma arange_Cons:
  assumes "start < stop" and "0 < step"
  shows "arange start stop step = start # tl (arange start stop step)"
proof -
  from assms have "(start - stop) div step < 0"
    by (simp add: div_neg_pos_less0)
  then have "arange start stop step \<noteq> []"
    by (simp add: arange_def)
  moreover from this have "hd (arange start stop step) = start"
    by (simp add: arange_def hd_map)
  ultimately show ?thesis by (metis list.collapse)
qed

lemma length_new_dates:
  "length (new_dates s e) = nat \<lceil>real_of_int (e - s) / 6\<rceil>"
proof -
  have "\<lceil>real_of_int (e - s) / real_of_int 6\<rceil> = - (- (e - s) div 6)"
    by (rule ceiling_divide_eq_div)
  then show ?thesis by (simp add: new_dates_def length_arange)
qed

lemma new_dates_Cons: "s < e \<Longrightarrow> new_dates s e = s # tl (new_dates s e)"
  unfolding new_dates_def by (rule arange_Cons) simp_all

lemma new_dates_Nil: "e \<le> s \<Longrightarrow> new_dates s e = []"
proof -
  assume "e \<le> s"
  then have "0 \<le> (s - e) div 6" by (simp add: pos_imp_zdiv_nonneg_iff)
  then show ?thesis by (simp add: new_dates_def arange_def)
qed

lemma nth_tl_new_dates:
  "k < length (tl (new_dates s e)) \<Longrightarrow> tl (new_dates s e) ! k = s + 6 * (int k + 1)"
  by (simp add: new_dates_def tl_arange)

section \<open>\<open>get_ndvi_tseries\<close>: when it returns and what\<close>

lemma fit_lengths:
  "length (dates_masked (map timestamp (map fst days)) (series E days)) =
     length (tseries_masked (series E days))"
  by (rule length_masked_eq) (simp add: length_series)

lemma fit_raises:
  "length (tseries_masked (series E days)) < scipy_minval E \<Longrightarrow>
     fit E days = Inl (Exn ''ValueError'')"
  unfolding fit_def Let_def by (rule interp1d_raises) (simp_all add: fit_lengths del: map_map)

lemma fit_returns:
  assumes "scipy_minval E \<le> length (tseries_masked (series E days))"
  shows "\<exists>xy. fit E days = Inr xy"
  unfolding fit_def Let_def using assms
  by (intro interp1d_returns) (simp_all add: fit_lengths del: map_map)

lemma fit_Inr:
  assumes "fit E days = Inr xy"
  shows "length xy = length (tseries_masked (series E days))"
    and "distinct (map fst days) \<Longrightarrow> distinct (map fst xy)"
proof -
  let ?x = "dates_masked (map timestamp (map fst days)) (series E days)"
  from assms have *: "length xy = length ?x \<and> scipy_minval E \<le> length ?x
      \<and> mset (map fst xy) = mset ?x"
    unfolding fit_def Let_def by (rule interp1d_Inr)
  then show "length xy = length (tseries_masked (series E days))"
    by (simp add: fit_lengths del: map_map)
  assume "distinct (map fst days)"
  then have "distinct (map timestamp (map fst days))"
    by (simp add: distinct_map inj_on_def timestamp_def)
  then have "distinct ?x" by (rule dates_masked_distinct)
  with * show "distinct (map fst xy)"
    by (metis mset_eq_imp_distinct_iff)
qed

lemma get_ndvi_tseries_Inr:
  assumes "get_ndvi_tseries E geom s e = Inr (vs, ds)"
  obtains days xy ys where "imagery E geom s e = Inr days" and "fit E days = Inr xy"
    and "f_interp (float_rnd E) xy (map timestamp (new_dates s e)) = Inr ys"
    and "vs = tl ys" and "ds = tl (new_dates s e)"
  using assms unfolding get_ndvi_tseries_def Let_def
  by (auto split: sum.splits)

lemma get_ndvi_tseries_eval:
  assumes "imagery E geom s e = Inr days" and "fit E days = Inr xy"
    and "f_interp (float_rnd E) xy (map timestamp (new_dates s e)) = Inr ys"
  shows "get_ndvi_tseries E geom s e = Inr (tl ys, tl (new_dates s e))"
  using assms unfolding get_ndvi_tseries_def Let_def by simp

lemma get_ndvi_tseries_raises:
  assumes "imagery E geom s e = Inr days"
    and "length (tseries_masked (series E days)) < scipy_minval E"
  shows "get_ndvi_tseries E geom s e = Inl (Exn ''ValueError'')"
  using assms(1) fit_raises [OF assms(2)] unfolding get_ndvi_tseries_def Let_def by simp

lemma get_ndvi_tseries_defined:
  assumes img: "imagery E geom s e = Inr days"
    and dist: "distinct (map fst days)"
    and n: "2 \<le> length (tseries_masked (series E days))"
    and m: "scipy_minval E \<le> 2"
  shows "\<exists>vs. get_ndvi_tseries E geom s e = Inr (vs, tl (new_dates s e))
           \<and> length vs = length (new_dates s e) - 1 \<and> None \<notin> set vs"
proof -
  from n m have "scipy_minval E \<le> length (tseries_masked (series E days))" by simp
  then obtain xy where fit: "fit E days = Inr xy" using fit_returns by blast
  from fit_Inr [OF fit] dist n have len: "2 \<le> length xy" and d: "distinct (map fst xy)"
    by simp_all
  then have "xy \<noteq> []" by auto
  then obtain ys where ys: "f_interp (float_rnd E) xy (map timestamp (new_dates s e)) = Inr ys"
    using f_interp_returns by blast
  then have la: "list_all2 (\<lambda>x y. call_linear (float_rnd E) xy x = Inr y)
      (map timestamp (new_dates s e)) ys"
    by (simp add: f_interp_Inr_iff)
  have "None \<notin> set ys"
  proof
    assume "None \<in> set ys"
    then obtain k where k: "k < length ys" "ys ! k = None" by (auto simp: in_set_conv_nth)
    with la have "call_linear (float_rnd E) xy (map timestamp (new_dates s e) ! k) = Inr None"
      by (auto dest: list_all2_nthD2)
    with call_linear_defined [OF len d] show False by (metis sum.inject(2) option.distinct(1))
  qed
  then have "None \<notin> set (tl ys)" by (cases ys) auto
  moreover from la have "length (tl ys) = length (new_dates s e) - 1"
    by (auto dest: list_all2_lengthD)
  ultimately show ?thesis
    using get_ndvi_tseries_eval [OF img fit ys] by blast
qed

lemma imagery_demo: "imagery (demo_env days) geom s e = Inr days"
  by (simp add: demo_env_def)

lemma minval_demo: "scipy_minval (demo_env days) = 2"
  by (simp add: demo_env_def)

lemma distinct_clear: "distinct (map fst clear_days)"
  by (simp add: clear_days_def)

lemma valid_clear: "2 \<le> length (tseries_masked (series (demo_env days) clear_days))"
  by (simp add: series_clear tseries_masked_def List.map_filter_simps)

lemma get_ndvi_tseries_demo:
  "get_ndvi_tseries (demo_env clear_days) field_geom 17987 18000 =
     Inr ([Some (59/100), Some (77/100)], [17993, 17999])"
proof -
  have fit: "fit (demo_env clear_days) clear_days = Inr [(17990 * 86400, 1/2), (18000 * 86400, 4/5)]"
    unfolding fit_def Let_def series_clear minval_demo
    by (simp add: interp1d_def dates_masked_Cons dates_masked_Nil tseries_masked_def
        List.map_filter_simps timestamp_def clear_days_def)
  have nd: "new_dates 17987 18000 = [17987, 17993, 17999]"
    by (simp add: new_dates_def arange_def upt_conv_Cons del: upt_Suc)
  have ev: "f_interp (float_rnd (demo_env clear_days)) [(17990 * 86400, 1/2), (18000 * 86400, 4/5)]
       (map timestamp [17987, 17993, 17999]) = Inr [Some (41/100), Some (59/100), Some (77/100)]"
    by (simp add: demo_env_def timestamp_def call_linear_def searchsorted_def clip_def py_get_def
        linear_eval_def Let_def)
  show ?thesis
    using get_ndvi_tseries_eval [where geom = field_geom and s = 17987 and e = 18000,
        OF imagery_demo fit] ev nd by simp
qed

text \<open>
  Claim C9. \<open>get_ndvi_tseries\<close> evaluates the interpolant on the 6-day grid over
  \<open>[start_date, end_date)\<close> and returns the evaluated vector and the grid dates without their
  first element, which for a non-empty grid is the point at \<open>start_date\<close>; the two returned
  vectors have the same length. The k-th returned date is \<open>start_date + 6 * (k + 1)\<close> days.
\<close>

theorem resample_drops_first_grid_point:
  assumes "get_ndvi_tseries E geom s e = Inr (vs, ds)"
  shows "length vs = length ds
       \<and> (\<forall>k < length ds. ds ! k = s + 6 * (int k + 1) \<and> ds ! k < e)
       \<and> (e \<le> s \<longrightarrow> new_dates s e = [] \<and> vs = [] \<and> ds = [])
       \<and> (s < e \<longrightarrow> new_dates s e = s # ds
            \<and> (\<exists>days xy y0. imagery E geom s e = Inr days \<and> fit E days = Inr xy
                 \<and> f_interp (float_rnd E) xy (map timestamp (s # ds)) = Inr (y0 # vs)))"
proof -
  from assms obtain days xy ys where img: "imagery E geom s e = Inr days"
    and fit: "fit E days = Inr xy"
    and ys: "f_interp (float_rnd E) xy (map timestamp (new_dates s e)) = Inr ys"
    and vs: "vs = tl ys" and ds: "ds = tl (new_dates s e)"
    by (rule get_ndvi_tseries_Inr)
  from ys have len: "length ys = length (new_dates s e)"
    by (auto simp: f_interp_Inr_iff dest: list_all2_lengthD)
  have 1: "length vs = length ds" using len vs ds by simp
  have 2: "\<forall>k < length ds. ds ! k = s + 6 * (int k + 1) \<and> ds ! k < e"
  proof (intro allI impI)
    fix k assume k: "k < length ds"
    then have v: "ds ! k = s + 6 * (int k + 1)" unfolding ds by (rule nth_tl_new_dates)
    from k have "int k + 1 < - ((s - e) div 6)"
      by (simp add: ds new_dates_def length_arange)
    then have "s + 6 * (int k + 1) < e" by presburger
    then have "ds ! k < e" unfolding v .
    with v show "ds ! k = s + 6 * (int k + 1) \<and> ds ! k < e" by simp
  qed
  have 3: "e \<le> s \<longrightarrow> new_dates s e = [] \<and> vs = [] \<and> ds = []"
    using len vs ds by (auto dest: new_dates_Nil)
  have 4: "s < e \<longrightarrow> new_dates s e = s # ds
            \<and> (\<exists>days xy y0. imagery E geom s e = Inr days \<and> fit E days = Inr xy
                 \<and> f_interp (float_rnd E) xy (map timestamp (s # ds)) = Inr (y0 # vs))"
  proof
    assume "s < e"
    then have nd: "new_dates s e = s # ds" unfolding ds by (rule new_dates_Cons)
    with len obtain y0 where "ys = y0 # vs" unfolding vs by (cases ys) auto
    with img fit ys nd show "new_dates s e = s # ds
            \<and> (\<exists>days xy y0. imagery E geom s e = Inr days \<and> fit E days = Inr xy
                 \<and> f_interp (float_rnd E) xy (map timestamp (s # ds)) = Inr (y0 # vs))"
      by auto
  qed
  from 1 2 3 4 show ?thesis by blast
qed

theorem resample_drops_first_grid_point_witness:
  "get_ndvi_tseries (demo_env clear_days) field_geom 17987 18000 =
     Inr ([Some (59/100), Some (77/100)], [17993, 17999])
   \<and> new_dates 17987 18000 = [17987, 17993, 17999]
   \<and> (\<exists>days xy y0. imagery (demo_env clear_days) field_geom 17987 18000 = Inr days
         \<and> fit (demo_env clear_days) days = Inr xy
         \<and> f_interp (float_rnd (demo_env clear_days)) xy (map timestamp [17987, 17993, 17999])
             = Inr [y0, Some (59/100), Some (77/100)])"
  using resample_drops_first_grid_point [OF get_ndvi_tseries_demo] get_ndvi_tseries_demo
  by simp

text \<open>
  Claim C1, as amended. For a geometry whose index series has at least 2 unmasked samples (on
  distinct acquisition days, as the grouping by day gives them), \<open>get_ndvi_tseries\<close> returns a
  resampled series of exactly \<open>ceil((end_date - start_date) / 6 days) - 1\<close> elements, none of
  them undefined. That is \<open>(end_date - start_date) / 6 days - 1\<close> when the range is a positive
  multiple of 6 days.
\<close>

theorem resampled_series_length:
  assumes "imagery E geom s e = Inr days"
    and "distinct (map fst days)"
    and "2 \<le> length (tseries_masked (series E days))"
    and "scipy_minval E \<le> 2"
  shows "\<exists>vs ds. get_ndvi_tseries E geom s e = Inr (vs, ds)
           \<and> length vs = nat \<lceil>real_of_int (e - s) / 6\<rceil> - 1
           \<and> None \<notin> set vs
           \<and> (s < e \<and> 6 dvd (e - s) \<longrightarrow> int (length vs) = (e - s) div 6 - 1)"
proof -
  from get_ndvi_tseries_defined [OF assms] obtain vs where
    r: "get_ndvi_tseries E geom s e = Inr (vs, tl (new_dates s e))"
    and l: "length vs = length (new_dates s e) - 1" and n: "None \<notin> set vs" by blast
  have l': "length vs = nat \<lceil>real_of_int (e - s) / 6\<rceil> - 1"
    using l by (simp add: length_new_dates)
  have "s < e \<and> 6 dvd (e - s) \<longrightarrow> int (length vs) = (e - s) div 6 - 1"
  proof
    assume a: "s < e \<and> 6 dvd (e - s)"
    then obtain q where q: "e - s = 6 * q" by (auto simp: dvd_def)
    with a have "0 < q" by simp
    have "s - e = 6 * (- q)" using q by simp
    then have "- ((s - e) div 6) = q" by simp
    with \<open>0 < q\<close> q show "int (length vs) = (e - s) div 6 - 1"
      by (simp add: l new_dates_def length_arange)
  qed
  with r l' n show ?thesis by blast
qed

theorem resampled_series_length_witness:
  "\<exists>vs ds. get_ndvi_tseries (demo_env clear_days) field_geom 17987 18167 = Inr (vs, ds)
      \<and> length vs = 29 \<and> None \<notin> set vs"
  using resampled_series_length [where geom = field_geom and s = 17987 and e = 18167,
      OF imagery_demo distinct_clear valid_clear]
  by (auto simp add: minval_demo)

text \<open>
  The claim as the specification states it fails on the default date range, 183 days: the
  series has 30 elements, and \<open>183 / 6 - 1\<close> is 29 with integer division and 29.5 without.
\<close>

theorem resampled_series_length_counterexample:
  "(case get_ndvi_tseries (demo_env clear_days) field_geom default_start_date default_end_date of
      Inl ex \<Rightarrow> None | Inr (vs, ds) \<Rightarrow> Some (length vs)) = Some 30
   \<and> default_end_date - default_start_date = 183
   \<and> (30 :: int) \<noteq> 183 div 6 - 1
   \<and> (30 :: real) \<noteq> 183 / 6 - 1"
proof -
  obtain vs where
    "get_ndvi_tseries (demo_env clear_days) field_geom default_start_date default_end_date
       = Inr (vs, tl (new_dates default_start_date default_end_date))"
    and "length vs = length (new_dates default_start_date default_end_date) - 1"
    using get_ndvi_tseries_defined [where geom = field_geom and s = default_start_date
        and e = default_end_date, OF imagery_demo distinct_clear valid_clear]
    by (auto simp: minval_demo)
  then show ?thesis
    by (simp add: new_dates_def length_arange default_start_date_def default_end_date_def)
qed

section \<open>The model cache\<close>

lemma dir_prefixes_tmp_models: "dir_prefixes ''/tmp/models'' = [''/tmp'', ''/tmp/models'']"
  by code_simp

lemma osp_exists_makedirs: "osp_exists w q \<Longrightarrow> osp_exists (os_makedirs name w) q"
  by (auto simp: osp_exists_def os_makedirs_def)

lemma s3_download_file_world:
  "snd (s3_download_file E bucket key filename w) =
     (case s3 E bucket key of
        None \<Rightarrow> w\<lparr>fetches := fetches w @ [S3Download bucket key filename]\<rparr>
      | Some obj \<Rightarrow> w\<lparr>fetches := fetches w @ [S3Download bucket key filename],
                          files := (files w)(filename \<mapsto> obj)\<rparr>)"
  by (simp add: s3_download_file_def Let_def split: option.splits)


lemma get_field_class_world:
  "snd (get_field_class E geom fid s3_bucket model_name w) =
     (if osp_exists (cache_dir_made w) (osp_join ''/tmp/models'' model_name)
      then cache_dir_made w
      else snd (s3_download_file E s3_bucket model_name (osp_join ''/tmp/models'' model_name)
                  (cache_dir_made w)))"
proof (cases "osp_exists (cache_dir_made w) (osp_join ''/tmp/models'' model_name)")
  case True
  then show ?thesis
    unfolding get_field_class_def Let_def cache_dir_made_def [symmetric]
    by (simp split: sum.splits prod.splits)
next
  case False
  obtain r w2 where "s3_download_file E s3_bucket model_name
      (osp_join ''/tmp/models'' model_name) (cache_dir_made w) = (r, w2)"
    by (metis surj_pair)
  with False show ?thesis
    unfolding get_field_class_def Let_def cache_dir_made_def [symmetric]
    by (simp split: sum.splits prod.splits)
qed




lemma cache_dir_made_simps:
  "files (cache_dir_made w) = files w"
  "fetches (cache_dir_made w) = fetches w"
  "dirs w \<subseteq> dirs (cache_dir_made w)"
  "dirs (cache_dir_made w) \<subseteq> dirs w \<union> {''/tmp'', ''/tmp/models''}"
  "osp_exists w ''/tmp/models'' \<Longrightarrow> cache_dir_made w = w"
  by (auto simp: cache_dir_made_def os_makedirs_def dir_prefixes_tmp_models)

lemma osp_exists_cache_dir_made:
  "osp_exists w q \<Longrightarrow> osp_exists (cache_dir_made w) q"
  by (simp add: cache_dir_made_def osp_exists_makedirs)

lemma get_field_class_cached:
  assumes "osp_exists w (osp_join ''/tmp/models'' model_name)"
  shows "snd (get_field_class E geom fid s3_bucket model_name w) = cache_dir_made w"
  using osp_exists_cache_dir_made [OF assms] by (simp add: get_field_class_world)

lemma osp_join_relative:
  "model_name = [] \<or> hd model_name \<noteq> CHR ''/'' \<Longrightarrow>
     osp_join ''/tmp/models'' model_name = ''/tmp/models/'' @ model_name"
  by (auto simp: osp_join_def)

text \<open>
  Claim C10, as amended. A call to \<open>get_field_class\<close> writes to the local file system only
  at the cache location \<open>os.path.join("/tmp/models", model_name)\<close>, which is
  \<open>/tmp/models/<model_name>\<close> for a model name that is not an absolute path, and creates the
  directory \<open>/tmp/models\<close> (with its parent) when it is missing. When the file at the cache
  location exists the call writes no file and fetches nothing, and when the directory exists
  as well the call changes nothing at all.
\<close>

theorem get_field_class_frame:
  fixes E geom fid s3_bucket model_name w
  defines "p \<equiv> osp_join ''/tmp/models'' model_name"
    and "w' \<equiv> snd (get_field_class E geom fid s3_bucket model_name w)"
  shows "(model_name = [] \<or> hd model_name \<noteq> CHR ''/'' \<longrightarrow> p = ''/tmp/models/'' @ model_name)
       \<and> (\<forall>q. q \<noteq> p \<longrightarrow> files w' q = files w q)
       \<and> dirs w \<subseteq> dirs w' \<and> dirs w' \<subseteq> dirs w \<union> {''/tmp'', ''/tmp/models''}
       \<and> (osp_exists w p \<longrightarrow> files w' = files w \<and> fetches w' = fetches w)
       \<and> (osp_exists w p \<and> osp_exists w ''/tmp/models'' \<longrightarrow> w' = w)"
proof -
  have 1: "model_name = [] \<or> hd model_name \<noteq> CHR ''/'' \<longrightarrow> p = ''/tmp/models/'' @ model_name"
    unfolding p_def using osp_join_relative by blast
  have w': "w' = cache_dir_made w \<or>
      w' = snd (s3_download_file E s3_bucket model_name p (cache_dir_made w))"
    unfolding w'_def p_def by (simp add: get_field_class_world)
  have 2: "\<forall>q. q \<noteq> p \<longrightarrow> files w' q = files w q"
    using w' by (auto simp: s3_download_file_world cache_dir_made_simps split: option.splits)
  have 3: "dirs w \<subseteq> dirs w' \<and> dirs w' \<subseteq> dirs w \<union> {''/tmp'', ''/tmp/models''}"
    using w' cache_dir_made_simps(3,4) [of w]
    by (auto simp: s3_download_file_world split: option.splits)
  have 4: "osp_exists w p \<longrightarrow> files w' = files w \<and> fetches w' = fetches w"
    unfolding w'_def p_def by (auto simp: get_field_class_cached cache_dir_made_simps)
  have 5: "osp_exists w p \<and> osp_exists w ''/tmp/models'' \<longrightarrow> w' = w"
    unfolding w'_def p_def by (auto simp: get_field_class_cached cache_dir_made_simps)
  from 1 2 3 4 5 show ?thesis by blast
qed










section \<open>The Flask handler\<close>





section \<open>The cache on concrete runs\<close>




lemma s3_demo: "s3 (demo_env days) ''dl-aws-onboarding'' key = Some const_classifier"
  by (simp add: demo_env_def)

lemma fresh_world_simps:
  "dirs fresh_world = {''/tmp''}" "files fresh_world = Map.empty" "fetches fresh_world = []"
  by (simp_all add: fresh_world_def)

lemma fresh_cache_dir:
  "dirs (cache_dir_made fresh_world) = {''/tmp'', ''/tmp/models''}"
  "files (cache_dir_made fresh_world) = Map.empty"
  "fetches (cache_dir_made fresh_world) = []"
  by (auto simp: cache_dir_made_def fresh_world_def osp_exists_def os_makedirs_def
      dir_prefixes_tmp_models)



theorem get_field_class_frame_witness:
  "osp_join ''/tmp/models'' ''classifier.joblib'' = ''/tmp/models/classifier.joblib''
   \<and> dirs (snd (get_field_class (demo_env clear_days) field_geom (JStr ''f1'')
         ''dl-aws-onboarding'' ''classifier.joblib'' fresh_world)) \<subseteq> {''/tmp'', ''/tmp/models''}
   \<and> files (snd (get_field_class (demo_env clear_days) field_geom (JStr ''f1'')
         ''dl-aws-onboarding'' ''classifier.joblib'' fresh_world)) ''/tmp/classifier.joblib'' = None
   \<and> snd (get_field_class (demo_env clear_days) field_geom (JStr ''f1'')
         ''dl-aws-onboarding'' ''classifier.joblib'' cached_world) = cached_world"
proof -
  note a = get_field_class_frame [of "''classifier.joblib''" "demo_env clear_days" field_geom
      "JStr ''f1''" "''dl-aws-onboarding''" fresh_world]
  note b = get_field_class_frame [of "''classifier.joblib''" "demo_env clear_days" field_geom
      "JStr ''f1''" "''dl-aws-onboarding''" cached_world]
  have p: "osp_join ''/tmp/models'' ''classifier.joblib'' = ''/tmp/models/classifier.joblib''"
    using a by simp
  have "osp_exists cached_world ''/tmp/models/classifier.joblib''"
       "osp_exists cached_world ''/tmp/models''"
    by (simp_all add: osp_exists_def cached_world_def)
  with b p have 4: "snd (get_field_class (demo_env clear_days) field_geom (JStr ''f1'')
         ''dl-aws-onboarding'' ''classifier.joblib'' cached_world) = cached_world"
    by simp
  from a p have 2: "dirs (snd (get_field_class (demo_env clear_days) field_geom (JStr ''f1'')
         ''dl-aws-onboarding'' ''classifier.joblib'' fresh_world)) \<subseteq> {''/tmp'', ''/tmp/models''}"
    by (auto simp: fresh_world_simps)
  from a p have 3: "files (snd (get_field_class (demo_env clear_days) field_geom (JStr ''f1'')
         ''dl-aws-onboarding'' ''classifier.joblib'' fresh_world)) ''/tmp/classifier.joblib'' = None"
    by (simp add: fresh_world_simps)
  from p 2 3 4 show ?thesis by blast
qed

text \<open>
  With the absolute model name \<open>/tmp/classifier.joblib\<close> the download is written to that path,
  which had no file, and nothing is written under \<open>/tmp/models/\<close>.
\<close>

theorem absolute_model_name_counterexample:
  "files (snd (get_field_class (demo_env clear_days) field_geom (JStr ''f1'')
       ''dl-aws-onboarding'' ''/tmp/classifier.joblib'' fresh_world)) ''/tmp/classifier.joblib''
     \<noteq> None
   \<and> files fresh_world ''/tmp/classifier.joblib'' = None
   \<and> ''/tmp/classifier.joblib'' \<noteq> ''/tmp/models/'' @ ''/tmp/classifier.joblib''
   \<and> files (snd (get_field_class (demo_env clear_days) field_geom (JStr ''f1'')
       ''dl-aws-onboarding'' ''/tmp/classifier.joblib'' fresh_world))
       (''/tmp/models/'' @ ''/tmp/classifier.joblib'') = None"
  by (simp add: get_field_class_world s3_download_file_world s3_demo osp_join_def
      fresh_cache_dir osp_exists_def fresh_world_simps)

section \<open>No valid sample\<close>

lemma get_field_class_propagates:
  assumes "get_ndvi_tseries E geom default_start_date default_end_date = Inl ex"
    and "files w (osp_join ''/tmp/models'' model_name) = Some clf"
  shows "fst (get_field_class E geom fid s3_bucket model_name w) = Inl ex"
proof -
  from assms(2) have "osp_exists w (osp_join ''/tmp/models'' model_name)"
    by (simp add: osp_exists_def)
  then have "osp_exists (cache_dir_made w) (osp_join ''/tmp/models'' model_name)"
    by (rule osp_exists_cache_dir_made)
  moreover have "load (cache_dir_made w) (osp_join ''/tmp/models'' model_name) = Inr clf"
    using assms(2) by (simp add: load_def cache_dir_made_simps)
  ultimately show ?thesis
    using assms(1)
    unfolding get_field_class_def Let_def cache_dir_made_def [symmetric]
    by simp
qed

lemma cached_world_model:
  "files cached_world (osp_join ''/tmp/models'' ''classifier.joblib'') = Some const_classifier"
  by (simp add: cached_world_def osp_join_def)

text \<open>
  Claim C2, as amended. When the catalog returns zero scenes or every sample of the series is
  masked, the pipeline returns no vector and raises the exception of the library call that
  fails: the \<open>ValueError\<close> of the construction of the interpolant when the imagery call
  returned, and the exception of the imagery call when that one raised. The exception
  propagates unchanged through \<open>get_field_class\<close>. The code defines no error kind of its own.
\<close>

theorem no_valid_samples_raise:
  "(imagery E geom s e = Inr days \<and> list_all (\<lambda>v. v = None) (series E days)
      \<and> 1 \<le> scipy_minval E \<longrightarrow>
        get_ndvi_tseries E geom s e = Inl (Exn ''ValueError''))
   \<and> (imagery E geom s e = Inl ex \<longrightarrow> get_ndvi_tseries E geom s e = Inl ex)
   \<and> (get_ndvi_tseries E geom default_start_date default_end_date = Inl ex
        \<and> files w (osp_join ''/tmp/models'' model_name) = Some clf \<longrightarrow>
        fst (get_field_class E geom fid s3_bucket model_name w) = Inl ex)"
proof -
  have 1: "imagery E geom s e = Inr days \<and> list_all (\<lambda>v. v = None) (series E days)
      \<and> 1 \<le> scipy_minval E \<longrightarrow> get_ndvi_tseries E geom s e = Inl (Exn ''ValueError'')"
  proof
    assume a: "imagery E geom s e = Inr days \<and> list_all (\<lambda>v. v = None) (series E days)
      \<and> 1 \<le> scipy_minval E"
    then have "tseries_masked (series E days) = []"
      by (simp add: tseries_masked_all_None)
    with a have "length (tseries_masked (series E days)) < scipy_minval E" by simp
    with a show "get_ndvi_tseries E geom s e = Inl (Exn ''ValueError'')"
      by (simp add: get_ndvi_tseries_raises)
  qed
  have 2: "imagery E geom s e = Inl ex \<longrightarrow> get_ndvi_tseries E geom s e = Inl ex"
    by (simp add: get_ndvi_tseries_def)
  from 1 2 get_field_class_propagates [of E geom ex w model_name clf fid s3_bucket]
  show ?thesis by blast
qed

theorem no_valid_samples_raise_witness:
  "list_all (\<lambda>v. v = None) (series (demo_env cloudy_days) cloudy_days)
   \<and> get_ndvi_tseries (demo_env cloudy_days) field_geom default_start_date default_end_date
       = Inl (Exn ''ValueError'')
   \<and> fst (get_field_class (demo_env cloudy_days) field_geom (JStr ''f1'') ''dl-aws-onboarding''
        ''classifier.joblib'' cached_world) = Inl (Exn ''ValueError'')"
proof -
  note t = no_valid_samples_raise [of "demo_env cloudy_days" field_geom default_start_date
      default_end_date cloudy_days "Exn ''ValueError''" cached_world "''classifier.joblib''"
      const_classifier "JStr ''f1''" "''dl-aws-onboarding''"]
  have a: "list_all (\<lambda>v. v = None) (series (demo_env cloudy_days) cloudy_days)"
    by (simp add: series_cloudy)
  with t have b: "get_ndvi_tseries (demo_env cloudy_days) field_geom default_start_date
      default_end_date = Inl (Exn ''ValueError'')"
    by (simp add: imagery_demo minval_demo)
  with t cached_world_model have "fst (get_field_class (demo_env cloudy_days) field_geom
      (JStr ''f1'') ''dl-aws-onboarding'' ''classifier.joblib'' cached_world)
      = Inl (Exn ''ValueError'')"
    by blast
  with a b show ?thesis by blast
qed

text \<open>
  The exception raised for an empty stack, and for a stack whose only day is cloud-flagged, is
  \<open>ValueError\<close> and not \<open>InsufficientDataError\<close>, also at the level of \<open>get_field_class\<close>.
\<close>

theorem insufficient_data_counterexample:
  "get_ndvi_tseries (demo_env []) field_geom default_start_date default_end_date
     = Inl (Exn ''ValueError'')
   \<and> get_ndvi_tseries (demo_env cloudy_days) field_geom default_start_date default_end_date
     = Inl (Exn ''ValueError'')
   \<and> fst (get_field_class (demo_env cloudy_days) field_geom (JStr ''f1'') ''dl-aws-onboarding''
        ''classifier.joblib'' cached_world) = Inl (Exn ''ValueError'')
   \<and> Exn ''ValueError'' \<noteq> Exn ''InsufficientDataError''"
proof -
  have 1: "get_ndvi_tseries (demo_env []) field_geom default_start_date default_end_date
     = Inl (Exn ''ValueError'')"
    by (rule get_ndvi_tseries_raises [OF imagery_demo])
       (simp add: series_empty tseries_masked_def List.map_filter_simps minval_demo)
  have 2: "get_ndvi_tseries (demo_env cloudy_days) field_geom default_start_date default_end_date
     = Inl (Exn ''ValueError'')"
    by (rule get_ndvi_tseries_raises [OF imagery_demo])
       (simp add: series_cloudy tseries_masked_def List.map_filter_simps minval_demo)
  from 1 2 get_field_class_propagates [OF 2 cached_world_model] show ?thesis by simp
qed

section \<open>The completion collector on every 10th task failing\<close>









end
